theory Spec2Isabelle
  imports Main
begin

section \<open>MMSI validation against the Indonesian numbering plan\<close>

text \<open>
  A shallow embedding of \<^verbatim>\<open>validate_mmsi_indonesia.py\<close>: the helpers
  \<^verbatim>\<open>_extract_mid\<close> and \<^verbatim>\<open>_mid_in_range\<close> and the classifier
  \<^verbatim>\<open>validate_mmsi\<close>. The CSV reader, the Excel writer and the command line
  are not modelled.
\<close>

subsection \<open>Python strings\<close>

text \<open>
  A Python \<^verbatim>\<open>str\<close> is a sequence of Unicode code points, and \<^verbatim>\<open>len\<close>
  counts code points. A string is therefore a list of code point numbers; \<open>lit\<close>
  turns an ASCII literal into such a list.
\<close>

type_synonym codepoint = nat
type_synonym pystr = "codepoint list"

definition ord :: "char \<Rightarrow> codepoint" where
  "ord c = of_char c"

definition lit :: "string \<Rightarrow> pystr" where
  "lit cs = map ord cs"

definition in_ranges :: "(codepoint \<times> codepoint) list \<Rightarrow> codepoint \<Rightarrow> bool" where
  "in_ranges rs c = list_ex (\<lambda>(lo, hi). lo \<le> c \<and> c \<le> hi) rs"

text \<open>
  The character classes behind \<^verbatim>\<open>str.isdigit\<close>, \<^verbatim>\<open>int\<close> and
  \<^verbatim>\<open>str.strip\<close>, as inclusive code point ranges (CPython 3.11, Unicode 14.0).
  \<open>digit_ranges\<close> are the characters whose Numeric_Type is Digit or Decimal: the ones
  \<^verbatim>\<open>str.isdigit\<close> accepts. It holds the superscripts U+00B2, U+00B3 and U+00B9, the
  subscripts and the circled digits besides the decimal digits of every script.
\<close>

definition digit_ranges :: "(codepoint \<times> codepoint) list" where
  "digit_ranges = [
     (0x30, 0x39), (0xB2, 0xB3), (0xB9, 0xB9), (0x660, 0x669),
     (0x6F0, 0x6F9), (0x7C0, 0x7C9), (0x966, 0x96F), (0x9E6, 0x9EF),
     (0xA66, 0xA6F), (0xAE6, 0xAEF), (0xB66, 0xB6F), (0xBE6, 0xBEF),
     (0xC66, 0xC6F), (0xCE6, 0xCEF), (0xD66, 0xD6F), (0xDE6, 0xDEF),
     (0xE50, 0xE59), (0xED0, 0xED9), (0xF20, 0xF29), (0x1040, 0x1049),
     (0x1090, 0x1099), (0x1369, 0x1371), (0x17E0, 0x17E9), (0x1810, 0x1819),
     (0x1946, 0x194F), (0x19D0, 0x19DA), (0x1A80, 0x1A89), (0x1A90, 0x1A99),
     (0x1B50, 0x1B59), (0x1BB0, 0x1BB9), (0x1C40, 0x1C49), (0x1C50, 0x1C59),
     (0x2070, 0x2070), (0x2074, 0x2079), (0x2080, 0x2089), (0x2460, 0x2468),
     (0x2474, 0x247C), (0x2488, 0x2490), (0x24EA, 0x24EA), (0x24F5, 0x24FD),
     (0x24FF, 0x24FF), (0x2776, 0x277E), (0x2780, 0x2788), (0x278A, 0x2792),
     (0xA620, 0xA629), (0xA8D0, 0xA8D9), (0xA900, 0xA909), (0xA9D0, 0xA9D9),
     (0xA9F0, 0xA9F9), (0xAA50, 0xAA59), (0xABF0, 0xABF9), (0xFF10, 0xFF19),
     (0x104A0, 0x104A9), (0x10A40, 0x10A43), (0x10D30, 0x10D39), (0x10E60, 0x10E68),
     (0x11052, 0x1105A), (0x11066, 0x1106F), (0x110F0, 0x110F9), (0x11136, 0x1113F),
     (0x111D0, 0x111D9), (0x112F0, 0x112F9), (0x11450, 0x11459), (0x114D0, 0x114D9),
     (0x11650, 0x11659), (0x116C0, 0x116C9), (0x11730, 0x11739), (0x118E0, 0x118E9),
     (0x11950, 0x11959), (0x11C50, 0x11C59), (0x11D50, 0x11D59), (0x11DA0, 0x11DA9),
     (0x16A60, 0x16A69), (0x16AC0, 0x16AC9), (0x16B50, 0x16B59), (0x1D7CE, 0x1D7FF),
     (0x1E140, 0x1E149), (0x1E2F0, 0x1E2F9), (0x1E950, 0x1E959), (0x1F100, 0x1F10A),
     (0x1FBF0, 0x1FBF9)]"

text \<open>
  \<open>decimal_ranges\<close> are the characters of general category Nd (Numeric_Type
  Decimal), the only digits \<^verbatim>\<open>int\<close> converts. Every range is a run of the digits
  0 to 9 in order (the last one, the mathematical digits, five such runs), so the value
  of a character is its distance from the start of its range, modulo 10.
\<close>

definition decimal_ranges :: "(codepoint \<times> codepoint) list" where
  "decimal_ranges = [
     (0x30, 0x39), (0x660, 0x669), (0x6F0, 0x6F9), (0x7C0, 0x7C9),
     (0x966, 0x96F), (0x9E6, 0x9EF), (0xA66, 0xA6F), (0xAE6, 0xAEF),
     (0xB66, 0xB6F), (0xBE6, 0xBEF), (0xC66, 0xC6F), (0xCE6, 0xCEF),
     (0xD66, 0xD6F), (0xDE6, 0xDEF), (0xE50, 0xE59), (0xED0, 0xED9),
     (0xF20, 0xF29), (0x1040, 0x1049), (0x1090, 0x1099), (0x17E0, 0x17E9),
     (0x1810, 0x1819), (0x1946, 0x194F), (0x19D0, 0x19D9), (0x1A80, 0x1A89),
     (0x1A90, 0x1A99), (0x1B50, 0x1B59), (0x1BB0, 0x1BB9), (0x1C40, 0x1C49),
     (0x1C50, 0x1C59), (0xA620, 0xA629), (0xA8D0, 0xA8D9), (0xA900, 0xA909),
     (0xA9D0, 0xA9D9), (0xA9F0, 0xA9F9), (0xAA50, 0xAA59), (0xABF0, 0xABF9),
     (0xFF10, 0xFF19), (0x104A0, 0x104A9), (0x10D30, 0x10D39), (0x11066, 0x1106F),
     (0x110F0, 0x110F9), (0x11136, 0x1113F), (0x111D0, 0x111D9), (0x112F0, 0x112F9),
     (0x11450, 0x11459), (0x114D0, 0x114D9), (0x11650, 0x11659), (0x116C0, 0x116C9),
     (0x11730, 0x11739), (0x118E0, 0x118E9), (0x11950, 0x11959), (0x11C50, 0x11C59),
     (0x11D50, 0x11D59), (0x11DA0, 0x11DA9), (0x16A60, 0x16A69), (0x16AC0, 0x16AC9),
     (0x16B50, 0x16B59), (0x1D7CE, 0x1D7FF), (0x1E140, 0x1E149), (0x1E2F0, 0x1E2F9),
     (0x1E950, 0x1E959), (0x1FBF0, 0x1FBF9)]"

text \<open>The characters \<^verbatim>\<open>str.strip()\<close> removes: those \<^verbatim>\<open>str.isspace\<close> accepts.\<close>

definition space_ranges :: "(codepoint \<times> codepoint) list" where
  "space_ranges = [
     (0x9, 0xD), (0x1C, 0x20), (0x85, 0x85), (0xA0, 0xA0),
     (0x1680, 0x1680), (0x2000, 0x200A), (0x2028, 0x2029), (0x202F, 0x202F),
     (0x205F, 0x205F), (0x3000, 0x3000)]"

definition isdigit_char :: "codepoint \<Rightarrow> bool" where
  "isdigit_char c = in_ranges digit_ranges c"

definition isspace_char :: "codepoint \<Rightarrow> bool" where
  "isspace_char c = in_ranges space_ranges c"

definition decimal_value :: "codepoint \<Rightarrow> nat option" where
  "decimal_value c =
     (case find (\<lambda>(lo, hi). lo \<le> c \<and> c \<le> hi) decimal_ranges of
        None \<Rightarrow> None
      | Some (lo, hi) \<Rightarrow> Some ((c - lo) mod 10))"

text \<open>\<^verbatim>\<open>s.isdigit()\<close>: the string is not empty and every character is a digit.\<close>

definition isdigit :: "pystr \<Rightarrow> bool" where
  "isdigit s = (s \<noteq> [] \<and> list_all isdigit_char s)"

text \<open>\<^verbatim>\<open>s.strip()\<close>: leading and trailing whitespace removed.\<close>

definition strip :: "pystr \<Rightarrow> pystr" where
  "strip s = rev (dropWhile isspace_char (rev (dropWhile isspace_char s)))"

text \<open>\<^verbatim>\<open>s.startswith(p)\<close>.\<close>

definition startswith :: "pystr \<Rightarrow> pystr \<Rightarrow> bool" where
  "startswith s p = (take (length p) s = p)"

text \<open>
  \<^verbatim>\<open>s[i:j]\<close>: a negative bound counts from the end, and both bounds are clipped
  to the string.
\<close>

definition slice :: "pystr \<Rightarrow> int \<Rightarrow> int \<Rightarrow> pystr" where
  "slice s i j =
     (let n = int (length s);
          lo = (if i < 0 then max (n + i) 0 else min i n);
          hi = (if j < 0 then max (n + j) 0 else min j n)
      in take (nat (hi - lo)) (drop (nat lo) s))"

datatype error = ValueError | IndexError

text \<open>
  \<^verbatim>\<open>int(s)\<close> on a string that has passed \<^verbatim>\<open>isdigit\<close>, the only use the
  source makes of it. Such a string has no sign, underscore or blank, so \<^verbatim>\<open>int\<close>
  reads it when every character is a decimal digit, most significant first, and raises
  \<^verbatim>\<open>ValueError\<close> (invalid literal for int() with base 10) otherwise.
\<close>

definition digits_value :: "nat list \<Rightarrow> int" where
  "digits_value ds = foldl (\<lambda>acc d. 10 * acc + int d) 0 ds"

definition int_of_str :: "pystr \<Rightarrow> error + int" where
  "int_of_str s =
     (if s \<noteq> [] \<and> list_all (\<lambda>c. decimal_value c \<noteq> None) s
      then Inr (digits_value (map (\<lambda>c. the (decimal_value c)) s))
      else Inl ValueError)"

text \<open>\<^verbatim>\<open>str(n)\<close> for an integer: its decimal digits, with a minus sign when negative.\<close>

fun str_of_nat :: "nat \<Rightarrow> pystr" where
  "str_of_nat n =
     (if n < 10 then [0x30 + n] else str_of_nat (n div 10) @ [0x30 + n mod 10])"

definition str_of_int :: "int \<Rightarrow> pystr" where
  "str_of_int i = (if i < 0 then ord CHR ''-'' # str_of_nat (nat (- i)) else str_of_nat (nat i))"

text \<open>An \<^verbatim>\<open>Optional[int]\<close> inside an f-string: \<^verbatim>\<open>None\<close> prints as its name.\<close>

definition fmt_mid :: "int option \<Rightarrow> pystr" where
  "fmt_mid mid = (case mid of None \<Rightarrow> lit ''None'' | Some i \<Rightarrow> str_of_int i)"

subsection \<open>The validator\<close>

definition MID_MIN :: int where
  "MID_MIN = 201"

definition MID_MAX :: int where
  "MID_MAX = 775"

definition VALID_FIRST_DIGITS :: "codepoint set" where
  "VALID_FIRST_DIGITS = {ord CHR ''2'', ord CHR ''3'', ord CHR ''4'', ord CHR ''5'',
     ord CHR ''6'', ord CHR ''7''}"

record ValidationResult =
  is_valid :: bool
  category :: pystr
  "note" :: pystr

definition result :: "bool \<Rightarrow> string \<Rightarrow> pystr \<Rightarrow> ValidationResult" where
  "result v c n = \<lparr>is_valid = v, category = lit c, note = n\<rparr>"

text \<open>
  \<^verbatim>\<open>_extract_mid\<close>: \<open>Inr None\<close> is the Python \<^verbatim>\<open>None\<close>, \<open>Inl\<close> an
  exception that escapes.
\<close>

definition extract_mid :: "pystr \<Rightarrow> int \<Rightarrow> error + int option" where
  "extract_mid mmsi start =
     (let end' = start + 3 in
      if end' > int (length mmsi) then Inr None
      else
        let segment = slice mmsi start end' in
        if \<not> isdigit segment then Inr None
        else (case int_of_str segment of Inl e \<Rightarrow> Inl e | Inr n \<Rightarrow> Inr (Some n)))"

definition mid_in_range :: "int option \<Rightarrow> bool" where
  "mid_in_range mid = (case mid of None \<Rightarrow> False | Some m \<Rightarrow> MID_MIN \<le> m \<and> m \<le> MID_MAX)"

text \<open>
  The branches that read a MID share one shape: call \<^verbatim>\<open>_extract_mid\<close>, then return
  the valid result when the MID is in range and the invalid one otherwise. \<open>with_mid\<close>
  is that shape; the two notes are functions of the MID.
\<close>

definition with_mid ::
  "error + int option \<Rightarrow> string \<Rightarrow> (int option \<Rightarrow> pystr) \<Rightarrow> (int option \<Rightarrow> pystr)
     \<Rightarrow> error + ValidationResult" where
  "with_mid r cat ok bad =
     (case r of
        Inl e \<Rightarrow> Inl e
      | Inr mid \<Rightarrow>
          if mid_in_range mid then Inr (result True cat (ok mid))
          else Inr (result False cat (bad mid)))"

text \<open>
  \<^verbatim>\<open>validate_mmsi\<close>. The argument is a \<^verbatim>\<open>str\<close> or \<^verbatim>\<open>None\<close>, so
  \<^verbatim>\<open>str(mmsi)\<close> is the string itself. \<open>original\<close> is the argument before trimming;
  only the non-digit note uses it. \<^verbatim>\<open>mmsi[0]\<close> on an empty string would raise
  \<^verbatim>\<open>IndexError\<close>; the length check before it excludes that.
\<close>

definition validate_mmsi :: "pystr option \<Rightarrow> error + ValidationResult" where
  "validate_mmsi arg =
     (case arg of
        None \<Rightarrow> Inr (result False ''unknown'' (lit ''MMSI kosong''))
      | Some original \<Rightarrow>
          let mmsi = strip original in
          if mmsi = [] then Inr (result False ''unknown'' (lit ''MMSI kosong''))
          else if \<not> isdigit mmsi then
            Inr (result False ''unknown'' (lit ''Mengandung karakter non-digit: '' @ original))
          else if length mmsi \<noteq> 9 then
            Inr (result False ''unknown'' (lit ''Panjang bukan 9 digit: '' @ mmsi))
          else
            (case mmsi of
               [] \<Rightarrow> Inl IndexError
             | first_digit # _ \<Rightarrow>
                 if first_digit \<in> VALID_FIRST_DIGITS then
                   with_mid (extract_mid mmsi 0) ''ship_station''
                     (\<lambda>mid. lit ''MID '' @ fmt_mid mid)
                     (\<lambda>mid. lit ''MID '' @ fmt_mid mid @ lit '' di luar 201-775'')
                 else if first_digit = ord CHR ''8'' then
                   with_mid (extract_mid mmsi 1) ''handheld_vhf_dsc''
                     (\<lambda>mid. lit ''Prefix 8 dengan MID '' @ fmt_mid mid)
                     (\<lambda>mid. lit ''Setelah 8 bukan MID 201-775 (MID='' @ fmt_mid mid @ lit '')'')
                 else if first_digit = ord CHR ''9'' then
                   (if startswith mmsi (lit ''970'') then
                      Inr (result True ''ais_sart'' (lit ''970xxxxxx (AIS-SART)''))
                    else if startswith mmsi (lit ''972'') then
                      Inr (result True ''mob_msld'' (lit ''972xxxxxx (MOB/MSLD)''))
                    else if startswith mmsi (lit ''974'') then
                      Inr (result True ''epirb_ais'' (lit ''974xxxxxx (EPIRB-AIS)''))
                    else if startswith mmsi (lit ''98'') \<or> startswith mmsi (lit ''99'') then
                      with_mid (extract_mid mmsi 2) ''auxiliary_craft''
                        (\<lambda>mid. take 2 mmsi @ lit '' + MID '' @ fmt_mid mid)
                        (\<lambda>mid. lit ''MID '' @ fmt_mid mid @ lit '' di luar 201-775'')
                    else
                      Inr (result False ''free_form''
                        (lit ''Prefix '' @ [0x27, 0x39, 0x27]
                          @ lit '' tetapi bukan 970/972/974 atau 98/99 + MID'')))
                 else if first_digit = ord CHR ''0'' then
                   (if startswith mmsi (lit ''00'') then
                      with_mid (extract_mid mmsi 2) ''coast_station''
                        (\<lambda>mid. lit ''00 + MID '' @ fmt_mid mid)
                        (\<lambda>mid. lit ''MID '' @ fmt_mid mid @ lit '' di luar 201-775'')
                    else
                      with_mid (extract_mid mmsi 1) ''group_call''
                        (\<lambda>mid. lit ''0 + MID '' @ fmt_mid mid)
                        (\<lambda>mid. lit ''MID '' @ fmt_mid mid @ lit '' di luar 201-775''))
                 else
                   Inr (result False ''unknown''
                     (lit ''Prefix '' @ [first_digit] @ lit '' tidak dikenal''))))"

subsection \<open>Vocabulary of the properties\<close>

text \<open>
  The properties speak of strings of nine decimal digits, of the integer that three
  consecutive digits spell, and of the two fields \<open>valid\<close> and \<open>category\<close> of a
  result. These are their definitions; none of them is part of the program.
\<close>

definition ascii_digit :: "codepoint \<Rightarrow> bool" where
  "ascii_digit c = (0x30 \<le> c \<and> c \<le> 0x39)"

definition digit_val :: "codepoint \<Rightarrow> int" where
  "digit_val c = int c - 0x30"

text \<open>The integer value of \<^verbatim>\<open>s[k:k+3]\<close> for a string of ASCII digits.\<close>

definition mid_digits :: "pystr \<Rightarrow> nat \<Rightarrow> int" where
  "mid_digits s k = 100 * digit_val (s ! k) + 10 * digit_val (s ! (k + 1)) + digit_val (s ! (k + 2))"

definition mmsi_digits :: "pystr \<Rightarrow> bool" where
  "mmsi_digits s = (length s = 9 \<and> list_all ascii_digit s)"

text \<open>What a call returns without its note: the exception, or \<open>(valid, category)\<close>.\<close>

definition verdict :: "pystr \<Rightarrow> error + bool \<times> pystr" where
  "verdict s =
     (case validate_mmsi (Some s) of Inl e \<Rightarrow> Inl e | Inr r \<Rightarrow> Inr (is_valid r, category r))"

text \<open>The closed set of category tags.\<close>

definition CATEGORY_TAGS :: "pystr set" where
  "CATEGORY_TAGS = lit ` {''ship_station'', ''handheld_vhf_dsc'', ''ais_sart'', ''mob_msld'',
     ''epirb_ais'', ''auxiliary_craft'', ''free_form'', ''coast_station'', ''group_call'',
     ''unknown''}"

text \<open>
  A string on which \<^verbatim>\<open>int\<close> cannot fail after \<^verbatim>\<open>isdigit\<close>: each of its characters
  that \<^verbatim>\<open>isdigit\<close> accepts is a decimal digit.
\<close>

definition int_safe :: "pystr \<Rightarrow> bool" where
  "int_safe s = list_all (\<lambda>c. isdigit_char c \<longrightarrow> decimal_value c \<noteq> None) s"

text \<open>
  A string that holds no digit character other than 0 to 9: whatever \<^verbatim>\<open>isdigit\<close>
  accepts in it is an ASCII digit. Every ASCII string is one; so is a string with
  letters or punctuation of any script.
\<close>

definition no_other_digits :: "pystr \<Rightarrow> bool" where
  "no_other_digits s = list_all (\<lambda>c. isdigit_char c \<longrightarrow> ascii_digit c) s"

text \<open>An ASCII string, as \<^verbatim>\<open>str.isascii\<close> has it: every code point is below 128.\<close>

definition isascii :: "pystr \<Rightarrow> bool" where
  "isascii s = list_all (\<lambda>c. c < 0x80) s"

section \<open>Properties\<close>

subsection \<open>Characters\<close>

lemmas eval_defs = validate_mmsi_def strip_def isspace_char_def space_ranges_def isdigit_def
  isdigit_char_def digit_ranges_def in_ranges_def VALID_FIRST_DIGITS_def ord_def lit_def
  with_mid_def extract_mid_def slice_def int_of_str_def decimal_value_def decimal_ranges_def
  digits_value_def mid_in_range_def MID_MIN_def MID_MAX_def startswith_def fmt_mid_def
  str_of_int_def result_def

lemmas class_defs = strip_def lit_def ord_def isspace_char_def isdigit_char_def in_ranges_def
  space_ranges_def digit_ranges_def

lemma ascii_digitD: "ascii_digit c \<Longrightarrow> 48 \<le> c" "ascii_digit c \<Longrightarrow> c \<le> 57"
  by (simp_all add: ascii_digit_def)

lemma ascii_isdigit: "ascii_digit c \<Longrightarrow> isdigit_char c"
  by (simp add: ascii_digit_def isdigit_char_def in_ranges_def digit_ranges_def)

lemma ascii_not_space: "ascii_digit c \<Longrightarrow> \<not> isspace_char c"
  by (simp add: ascii_digit_def isspace_char_def in_ranges_def space_ranges_def)

lemma ascii_decimal: "ascii_digit c \<Longrightarrow> decimal_value c = Some (c - 0x30)"
proof -
  assume "ascii_digit c"
  then have lo: "48 \<le> c" and hi: "c \<le> 57" by (simp_all add: ascii_digit_def)
  then have "c - 48 < 10" by simp
  then have m: "(c - 48) mod 10 = c - 48" by (rule mod_less)
  from lo hi have "find (\<lambda>(lo, hi). lo \<le> c \<and> c \<le> hi) decimal_ranges = Some (0x30, 0x39)"
    by (simp add: decimal_ranges_def)
  then show ?thesis by (simp add: decimal_value_def m)
qed

lemma isspace_char_bounds:
  "isspace_char c \<Longrightarrow>
     c \<le> 0x20 \<or> c = 0x85 \<or> c = 0xA0 \<or> c = 0x1680 \<or> (0x2000 \<le> c \<and> c \<le> 0x205F) \<or> c = 0x3000"
  by (auto simp: isspace_char_def in_ranges_def space_ranges_def)

lemma isdigit_char_bounds:
  "isdigit_char c \<Longrightarrow>
     0x30 \<le> c \<and> c \<noteq> 0x85 \<and> c \<noteq> 0xA0 \<and> c \<noteq> 0x1680 \<and> \<not> (0x2000 \<le> c \<and> c \<le> 0x205F) \<and> c \<noteq> 0x3000"
  by (auto simp: isdigit_char_def in_ranges_def digit_ranges_def)

lemma digit_not_space: "isdigit_char c \<Longrightarrow> \<not> isspace_char c"
  using isspace_char_bounds[of c] isdigit_char_bounds[of c] by auto

subsection \<open>Trimming\<close>

lemma dropWhile_id: "xs = [] \<or> \<not> P (hd xs) \<Longrightarrow> dropWhile P xs = xs"
  by (cases xs) auto

lemma dropWhile_hd: "dropWhile P xs \<noteq> [] \<Longrightarrow> \<not> P (hd (dropWhile P xs))"
  by (simp add: hd_dropWhile)

lemma last_dropWhile: "dropWhile P xs \<noteq> [] \<Longrightarrow> last (dropWhile P xs) = last xs"
proof -
  assume "dropWhile P xs \<noteq> []"
  then have "last (takeWhile P xs @ dropWhile P xs) = last (dropWhile P xs)"
    by (rule last_appendR)
  then show ?thesis by (simp only: takeWhile_dropWhile_id)
qed

lemma dropWhile_same_length: "length (dropWhile P xs) = length xs \<Longrightarrow> dropWhile P xs = xs"
proof -
  assume l: "length (dropWhile P xs) = length xs"
  have "length (takeWhile P xs) + length (dropWhile P xs) = length xs"
    by (simp flip: length_append)
  with l have "takeWhile P xs = []" by simp
  then have "takeWhile P xs @ dropWhile P xs = dropWhile P xs" by simp
  then show ?thesis by (simp only: takeWhile_dropWhile_id)
qed

lemma strip_id:
  assumes "s = [] \<or> (\<not> isspace_char (hd s) \<and> \<not> isspace_char (last s))"
  shows "strip s = s"
proof (cases "s = []")
  case True
  then show ?thesis by (simp add: strip_def)
next
  case False
  with assms have h: "\<not> isspace_char (hd s)" and l: "\<not> isspace_char (last s)" by auto
  from h have "dropWhile isspace_char s = s" by (simp add: dropWhile_id)
  moreover from l False have "dropWhile isspace_char (rev s) = rev s"
    by (simp add: dropWhile_id hd_rev)
  ultimately show ?thesis by (simp add: strip_def)
qed

lemma list_all_ends: "xs \<noteq> [] \<Longrightarrow> list_all P xs \<Longrightarrow> P (hd xs) \<and> P (last xs)"
  by (simp add: list_all_iff)

lemma digits_strip:
  assumes "list_all ascii_digit s"
  shows "strip s = s"
proof (cases "s = []")
  case True
  then show ?thesis by (simp add: strip_id)
next
  case False
  from False assms have "ascii_digit (hd s) \<and> ascii_digit (last s)" by (rule list_all_ends)
  then show ?thesis by (intro strip_id disjI2) (simp add: ascii_not_space)
qed

lemma isdigit_strip:
  assumes "isdigit s"
  shows "strip s = s"
proof -
  from assms have "s \<noteq> []" and "list_all isdigit_char s" by (simp_all add: isdigit_def)
  then have "isdigit_char (hd s) \<and> isdigit_char (last s)" by (rule list_all_ends)
  then show ?thesis by (intro strip_id disjI2) (simp add: digit_not_space)
qed

lemma strip_ends:
  assumes "strip s \<noteq> []"
  shows "\<not> isspace_char (hd (strip s)) \<and> \<not> isspace_char (last (strip s))"
proof -
  define a where "a = dropWhile isspace_char s"
  define b where "b = dropWhile isspace_char (rev a)"
  have s: "strip s = rev b" by (simp add: strip_def a_def b_def)
  from assms have b: "b \<noteq> []" by (simp add: s)
  have a: "a \<noteq> []"
  proof
    assume "a = []"
    then have "b = []" by (simp add: b_def)
    with b show False by simp
  qed
  have "last (strip s) = hd b" using b by (simp add: s last_rev)
  moreover have "\<not> isspace_char (hd b)" using b unfolding b_def by (rule dropWhile_hd)
  ultimately have l: "\<not> isspace_char (last (strip s))" by simp
  have "hd (strip s) = last b" using b by (simp add: s hd_rev)
  also have "\<dots> = last (rev a)" using b unfolding b_def by (rule last_dropWhile)
  also have "\<dots> = hd a" using a by (simp add: last_rev)
  finally have "hd (strip s) = hd a" .
  moreover have "\<not> isspace_char (hd a)" using a unfolding a_def by (rule dropWhile_hd)
  ultimately show ?thesis using l by simp
qed

lemma strip_strip: "strip (strip s) = strip s"
proof (cases "strip s = []")
  case True
  then show ?thesis by (simp add: strip_id)
next
  case False
  then show ?thesis by (intro strip_id disjI2 strip_ends)
qed

lemma length_strip_le: "length (strip s) \<le> length s"
proof -
  have "length (strip s) \<le> length (dropWhile isspace_char s)"
    using length_dropWhile_le [of isspace_char "rev (dropWhile isspace_char s)"]
    by (simp add: strip_def)
  also have "\<dots> \<le> length s" by (rule length_dropWhile_le)
  finally show ?thesis .
qed

lemma strip_same_length:
  assumes "length (strip s) = length s"
  shows "strip s = s"
proof -
  have a: "length (strip s) \<le> length (dropWhile isspace_char s)"
    using length_dropWhile_le [of isspace_char "rev (dropWhile isspace_char s)"]
    by (simp add: strip_def)
  have b: "length (dropWhile isspace_char s) \<le> length s" by (rule length_dropWhile_le)
  from a b assms have "length (dropWhile isspace_char s) = length s" by simp
  then have d: "dropWhile isspace_char s = s" by (rule dropWhile_same_length)
  with assms have "length (dropWhile isspace_char (rev s)) = length (rev s)"
    by (simp add: strip_def)
  then have "dropWhile isspace_char (rev s) = rev s" by (rule dropWhile_same_length)
  with d show ?thesis by (simp add: strip_def)
qed

lemma set_strip: "set (strip s) \<subseteq> set s"
  by (auto simp: strip_def dest!: set_dropWhileD)

subsection \<open>Slices and the MID helpers\<close>

lemma digits_isdigit: "s \<noteq> [] \<Longrightarrow> list_all ascii_digit s \<Longrightarrow> isdigit s"
  by (auto simp: isdigit_def list_all_iff ascii_isdigit)

lemma slice_within:
  "0 \<le> i \<Longrightarrow> i \<le> j \<Longrightarrow> j \<le> int (length s) \<Longrightarrow> slice s i j = take (nat (j - i)) (drop (nat i) s)"
  by (simp add: slice_def Let_def min_def)

lemma set_slice: "set (slice s i j) \<subseteq> set s"
  by (auto simp: slice_def Let_def dest: in_set_takeD in_set_dropD)

lemma take3_drop:
  assumes "k + 3 \<le> length s"
  shows "take 3 (drop k s) = [s ! k, s ! (k + 1), s ! (k + 2)]"
proof -
  from assms have "drop k s = s ! k # drop (Suc k) s" by (simp add: Cons_nth_drop_Suc)
  moreover from assms have "drop (Suc k) s = s ! Suc k # drop (Suc (Suc k)) s"
    by (simp add: Cons_nth_drop_Suc)
  moreover from assms have "drop (Suc (Suc k)) s = s ! Suc (Suc k) # drop (Suc (Suc (Suc k))) s"
    by (simp add: Cons_nth_drop_Suc)
  ultimately show ?thesis by (simp add: eval_nat_numeral)
qed

lemma int_of_str_3:
  assumes "ascii_digit a" "ascii_digit b" "ascii_digit c"
  shows "int_of_str [a, b, c] = Inr (100 * digit_val a + 10 * digit_val b + digit_val c)"
proof -
  from assms have "48 \<le> a" "48 \<le> b" "48 \<le> c" by (simp_all add: ascii_digit_def)
  then show ?thesis
    using assms by (simp add: int_of_str_def ascii_decimal digits_value_def digit_val_def)
qed

lemma extract_mid_digits:
  assumes d: "list_all ascii_digit s" and k: "k + 3 \<le> length s"
  shows "extract_mid s (int k) = Inr (Some (mid_digits s k))"
proof -
  from d k have a: "ascii_digit (s ! k)" "ascii_digit (s ! (k + 1))" "ascii_digit (s ! (k + 2))"
    by (simp_all add: list_all_length)
  from k have "slice s (int k) (int k + 3) = take 3 (drop k s)"
    by (simp add: slice_within)
  with k have seg: "slice s (int k) (int k + 3) = [s ! k, s ! (k + 1), s ! (k + 2)]"
    by (simp add: take3_drop)
  from a have dig: "isdigit [s ! k, s ! (k + 1), s ! (k + 2)]"
    by (simp add: isdigit_def ascii_isdigit)
  from k have "\<not> int k + 3 > int (length s)" by simp
  then show ?thesis
    using a seg dig by (simp add: extract_mid_def Let_def int_of_str_3 mid_digits_def)
qed

lemma mid_in_range_iff: "mid_in_range mid \<longleftrightarrow> (\<exists>m. mid = Some m \<and> 201 \<le> m \<and> m \<le> 775)"
  by (cases mid) (simp_all add: mid_in_range_def MID_MIN_def MID_MAX_def)

lemma extract_mid_absent:
  "int (length s) < start + 3 \<or> \<not> isdigit (slice s start (start + 3)) \<Longrightarrow>
     extract_mid s start = Inr None"
  by (auto simp: extract_mid_def Let_def)

lemma extract_mid_decimal:
  assumes "start + 3 \<le> int (length s)" and "isdigit (slice s start (start + 3))"
    and "list_all (\<lambda>c. decimal_value c \<noteq> None) (slice s start (start + 3))"
  shows "extract_mid s start =
     Inr (Some (digits_value (map (\<lambda>c. the (decimal_value c)) (slice s start (start + 3)))))"
proof -
  from assms(2) have "slice s start (start + 3) \<noteq> []" by (simp add: isdigit_def)
  with assms show ?thesis by (simp add: extract_mid_def Let_def int_of_str_def)
qed

lemma extract_mid_returns:
  assumes "int_safe s"
  shows "\<exists>mid. extract_mid s start = Inr mid"
proof (cases "int (length s) < start + 3 \<or> \<not> isdigit (slice s start (start + 3))")
  case True
  then show ?thesis by (simp add: extract_mid_absent)
next
  case False
  then have d: "isdigit (slice s start (start + 3))" and l: "start + 3 \<le> int (length s)"
    by simp_all
  have "list_all (\<lambda>c. decimal_value c \<noteq> None) (slice s start (start + 3))"
    using assms d set_slice [of s start "start + 3"]
    by (auto simp: int_safe_def isdigit_def list_all_iff)
  with l d show ?thesis by (simp add: extract_mid_decimal)
qed

subsection \<open>Results\<close>

lemma with_mid_Some:
  "with_mid (Inr (Some m)) cat ok bad =
     Inr (result (201 \<le> m \<and> m \<le> 775) cat
       (if 201 \<le> m \<and> m \<le> 775 then ok (Some m) else bad (Some m)))"
  by (auto simp: with_mid_def mid_in_range_def MID_MIN_def MID_MAX_def)

lemma with_mid_result:
  assumes "with_mid x cat ok bad = Inr r"
  shows "category r = lit cat \<and> (is_valid r \<or> (\<exists>m. note r = bad m))"
  using assms by (auto simp: with_mid_def result_def split: sum.splits if_splits)

lemma with_mid_returns: "x = Inr mid \<Longrightarrow> \<exists>r. with_mid x cat ok bad = Inr r"
  by (simp add: with_mid_def)

lemma lit_Cons: "lit (c # cs) = ord c # lit cs"
  by (simp add: lit_def)

lemma lit_append_nonempty: "lit (c # cs) @ xs \<noteq> []"
  by (simp add: lit_def)

lemma tags:
  "lit ''ship_station'' \<in> CATEGORY_TAGS" "lit ''handheld_vhf_dsc'' \<in> CATEGORY_TAGS"
  "lit ''ais_sart'' \<in> CATEGORY_TAGS" "lit ''mob_msld'' \<in> CATEGORY_TAGS"
  "lit ''epirb_ais'' \<in> CATEGORY_TAGS" "lit ''auxiliary_craft'' \<in> CATEGORY_TAGS"
  "lit ''free_form'' \<in> CATEGORY_TAGS" "lit ''coast_station'' \<in> CATEGORY_TAGS"
  "lit ''group_call'' \<in> CATEGORY_TAGS" "lit ''unknown'' \<in> CATEGORY_TAGS"
  by (simp_all add: CATEGORY_TAGS_def)

lemma with_mid_invariant:
  assumes "with_mid x cat ok bad = Inr r" and "lit cat \<in> CATEGORY_TAGS" and "\<And>m. bad m \<noteq> []"
  shows "category r \<in> CATEGORY_TAGS \<and> (\<not> is_valid r \<longrightarrow> note r \<noteq> [])"
  using with_mid_result [OF assms(1)] assms(2,3) by auto

lemma plain_result_invariant:
  "lit cat \<in> CATEGORY_TAGS \<Longrightarrow> n \<noteq> [] \<Longrightarrow>
     category (result v cat n) \<in> CATEGORY_TAGS \<and> (\<not> is_valid (result v cat n) \<longrightarrow> note (result v cat n) \<noteq> [])"
  by (simp add: result_def)

lemma verdict_result: "validate_mmsi (Some s) = Inr (result v cat n) \<Longrightarrow> verdict s = Inr (v, lit cat)"
  by (simp add: verdict_def result_def)

lemma startswith_hd: "startswith s (c # cs) \<Longrightarrow> hd s = c"
  by (cases s) (auto simp: startswith_def)

lemma digits9_facts:
  assumes "mmsi_digits s"
  shows "strip s = s" "isdigit s" "length s = 9" "s \<noteq> []"
    "extract_mid s 0 = Inr (Some (mid_digits s 0))"
    "extract_mid s 1 = Inr (Some (mid_digits s 1))"
    "extract_mid s 2 = Inr (Some (mid_digits s 2))"
proof -
  from assms have d: "list_all ascii_digit s" and l: "length s = 9"
    by (simp_all add: mmsi_digits_def)
  from l show ne: "s \<noteq> []" by auto
  from d show "strip s = s" by (rule digits_strip)
  from ne d show "isdigit s" by (rule digits_isdigit)
  from l show "length s = 9" .
  from l show "extract_mid s 0 = Inr (Some (mid_digits s 0))"
    using extract_mid_digits [OF d, of 0] by simp
  from l show "extract_mid s 1 = Inr (Some (mid_digits s 1))"
    using extract_mid_digits [OF d, of 1] by simp
  from l show "extract_mid s 2 = Inr (Some (mid_digits s 2))"
    using extract_mid_digits [OF d, of 2] by simp
qed

lemma validate_mmsi_None:
  "validate_mmsi None = Inr (result False ''unknown'' (lit ''MMSI kosong''))"
  by (simp add: validate_mmsi_def)

lemma validate_mmsi_empty:
  "strip s = [] \<Longrightarrow> validate_mmsi (Some s) = Inr (result False ''unknown'' (lit ''MMSI kosong''))"
  by (simp add: validate_mmsi_def)

lemma validate_mmsi_nondigit:
  "strip s \<noteq> [] \<Longrightarrow> \<not> list_all isdigit_char (strip s) \<Longrightarrow>
     validate_mmsi (Some s) =
       Inr (result False ''unknown'' (lit ''Mengandung karakter non-digit: '' @ s))"
  by (simp add: validate_mmsi_def isdigit_def)

lemma validate_mmsi_wrong_length:
  "strip s \<noteq> [] \<Longrightarrow> list_all isdigit_char (strip s) \<Longrightarrow> length (strip s) \<noteq> 9 \<Longrightarrow>
     validate_mmsi (Some s) =
       Inr (result False ''unknown'' (lit ''Panjang bukan 9 digit: '' @ strip s))"
  by (simp add: validate_mmsi_def isdigit_def)

lemma validate_mmsi_strip_digits:
  "strip s \<noteq> [] \<Longrightarrow> list_all isdigit_char (strip s) \<Longrightarrow>
     validate_mmsi (Some s) = validate_mmsi (Some (strip s))"
  by (simp add: validate_mmsi_def strip_strip isdigit_def Let_def)

lemma nine_chars_nondigit:
  assumes l: "length s = 9" and n: "\<not> list_all isdigit_char s"
  shows "verdict s = Inr (False, lit ''unknown'')"
proof (cases "strip s = []")
  case True
  show ?thesis by (rule verdict_result [OF validate_mmsi_empty [OF True]])
next
  case ne: False
  show ?thesis
  proof (cases "list_all isdigit_char (strip s)")
    case False
    show ?thesis by (rule verdict_result [OF validate_mmsi_nondigit [OF ne False]])
  next
    case True
    with n have "strip s \<noteq> s" by auto
    then have "length (strip s) \<noteq> length s" using strip_same_length by blast
    with l have len: "length (strip s) \<noteq> 9" by simp
    show ?thesis by (rule verdict_result [OF validate_mmsi_wrong_length [OF ne True len]])
  qed
qed

lemma validate_mmsi_returns:
  assumes "int_safe s"
  shows "\<exists>r. validate_mmsi (Some s) = Inr r"
proof -
  from assms have "int_safe (strip s)"
    using set_strip [of s] by (auto simp: int_safe_def list_all_iff)
  then have e: "\<exists>mid. extract_mid (strip s) start = Inr mid" for start
    by (rule extract_mid_returns)
  have w: "\<exists>r. with_mid (extract_mid (strip s) start) cat ok bad = Inr r" for start cat ok bad
    using e [of start] by (auto intro: with_mid_returns)
  show ?thesis
    by (simp add: validate_mmsi_def Let_def w list.case_eq_if)
qed

lemma ascii_int_safe: "list_all (\<lambda>c. c < 0x80) s \<Longrightarrow> int_safe s"
proof -
  have "decimal_value c \<noteq> None" if "isdigit_char c" "c < 0x80" for c
  proof -
    from that have "ascii_digit c"
      by (auto simp: isdigit_char_def in_ranges_def digit_ranges_def ascii_digit_def)
    then show ?thesis by (simp add: ascii_decimal)
  qed
  then show "list_all (\<lambda>c. c < 0x80) s \<Longrightarrow> int_safe s"
    by (auto simp: int_safe_def list_all_iff)
qed

lemma ascii_no_other_digits: "list_all (\<lambda>c. c < 0x80) s \<Longrightarrow> no_other_digits s"
proof -
  have "ascii_digit c" if "isdigit_char c" "c < 0x80" for c
    using that by (auto simp: isdigit_char_def in_ranges_def digit_ranges_def ascii_digit_def)
  then show "list_all (\<lambda>c. c < 0x80) s \<Longrightarrow> no_other_digits s"
    by (auto simp: no_other_digits_def list_all_iff)
qed

lemma no_other_digits_strip: "no_other_digits s \<Longrightarrow> no_other_digits (strip s)"
  using set_strip [of s] by (auto simp: no_other_digits_def list_all_iff)

lemma ascii_digits_isdigit: "list_all ascii_digit s \<Longrightarrow> list_all isdigit_char s"
  by (auto simp: list_all_iff ascii_isdigit)

lemma no_other_digits_nondigit:
  "no_other_digits s \<Longrightarrow> \<not> list_all ascii_digit s \<Longrightarrow> \<not> list_all isdigit_char s"
  by (auto simp: no_other_digits_def list_all_iff)

subsection \<open>Exceptions\<close>

text \<open>
  C1: for every input, also an absent, empty, non-numeric or wrong-length one,
  \<^verbatim>\<open>validate_mmsi\<close> returns a result and never raises. The code does not keep this.
  The string made of a 2, two superscript twos (U+00B2) and six more 2s is not empty,
  passes \<^verbatim>\<open>isdigit\<close> and has length 9; its first character is 2, so
  \<^verbatim>\<open>_extract_mid(mmsi, 0)\<close> is called; the segment passes \<^verbatim>\<open>isdigit\<close> again, and
  \<^verbatim>\<open>int\<close> raises \<^verbatim>\<open>ValueError\<close> on it, which nothing catches. The docstring of
  \<^verbatim>\<open>_extract_mid\<close> promises \<^verbatim>\<open>None\<close> for an invalid segment. Lemma
  \<open>validate_mmsi_returns\<close> above shows that a result is returned whenever every character
  that \<^verbatim>\<open>isdigit\<close> accepts is a decimal digit, so on every ASCII string
  (\<open>ascii_int_safe\<close>); \<open>validate_mmsi_None\<close> is the absent input.
\<close>

theorem validate_mmsi_raises:
  "validate_mmsi (Some [0x32, 0xB2, 0xB2, 0x32, 0x32, 0x32, 0x32, 0x32, 0x32]) = Inl ValueError"
  by (simp add: validate_mmsi_def strip_def isspace_char_def space_ranges_def isdigit_def
      isdigit_char_def digit_ranges_def in_ranges_def VALID_FIRST_DIGITS_def ord_def with_mid_def
      extract_mid_def slice_def int_of_str_def decimal_value_def decimal_ranges_def)

subsection \<open>Precondition checks\<close>

text \<open>
  C2, as amended: the three checks are made on the trimmed input, in the order empty,
  contains a non-digit, length not 9, and each returns at once with \<open>valid = False\<close> and
  category \<^verbatim>\<open>unknown\<close>. A digit is one of the characters 0 to 9. An absent input and
  one that is empty after trimming give the empty result. An ASCII input whose trimmed
  form is not empty and contains a character outside 0 to 9 gives the non-digit result,
  whose note quotes the input as given, whatever its length. An input whose trimmed form
  is made of the digits 0 to 9 and has a length other than 9 gives the wrong-length
  result; a string of digits has nothing to trim, so this holds of every non-empty string
  of digits 0 to 9 of length other than 9 as it stands. Every ASCII string of length 9
  that contains a character outside 0 to 9 is invalid with category \<^verbatim>\<open>unknown\<close>.
  Nothing is said of an input with a character that is not ASCII. The claim as worded,
  with the non-digit test on the input as given, fails: a blank is a non-digit, and a
  padded valid MMSI is classified after trimming, as the counterexample after the
  witness shows.
\<close>

theorem precondition_order:
  "validate_mmsi None = Inr (result False ''unknown'' (lit ''MMSI kosong''))
   \<and> (strip s = [] \<longrightarrow>
        validate_mmsi (Some s) = Inr (result False ''unknown'' (lit ''MMSI kosong'')))
   \<and> (isascii s \<and> strip s \<noteq> [] \<and> \<not> list_all ascii_digit (strip s) \<longrightarrow>
        validate_mmsi (Some s) =
          Inr (result False ''unknown'' (lit ''Mengandung karakter non-digit: '' @ s)))
   \<and> (strip s \<noteq> [] \<and> list_all ascii_digit (strip s) \<and> length (strip s) \<noteq> 9 \<longrightarrow>
        validate_mmsi (Some s) =
          Inr (result False ''unknown'' (lit ''Panjang bukan 9 digit: '' @ strip s)))
   \<and> (s \<noteq> [] \<and> list_all ascii_digit s \<and> length s \<noteq> 9 \<longrightarrow>
        validate_mmsi (Some s) =
          Inr (result False ''unknown'' (lit ''Panjang bukan 9 digit: '' @ s)))
   \<and> (isascii s \<and> length s = 9 \<and> \<not> list_all ascii_digit s \<longrightarrow>
        verdict s = Inr (False, lit ''unknown''))"
proof -
  have nondigit: "validate_mmsi (Some s) =
      Inr (result False ''unknown'' (lit ''Mengandung karakter non-digit: '' @ s))"
    if "isascii s" "strip s \<noteq> []" "\<not> list_all ascii_digit (strip s)"
  proof -
    from that(1) have "no_other_digits s" unfolding isascii_def by (rule ascii_no_other_digits)
    then have "no_other_digits (strip s)" by (rule no_other_digits_strip)
    then have "\<not> list_all isdigit_char (strip s)"
      using that(3) by (rule no_other_digits_nondigit)
    with that(2) show ?thesis by (rule validate_mmsi_nondigit)
  qed
  have trimmed: "validate_mmsi (Some s) =
      Inr (result False ''unknown'' (lit ''Panjang bukan 9 digit: '' @ strip s))"
    if "strip s \<noteq> []" "list_all ascii_digit (strip s)" "length (strip s) \<noteq> 9"
  proof -
    from that(2) have "list_all isdigit_char (strip s)" by (rule ascii_digits_isdigit)
    with that(1) show ?thesis using that(3) by (rule validate_mmsi_wrong_length)
  qed
  have digits: "validate_mmsi (Some s) =
      Inr (result False ''unknown'' (lit ''Panjang bukan 9 digit: '' @ s))"
    if "s \<noteq> []" "list_all ascii_digit s" "length s \<noteq> 9"
  proof -
    from that(2) have "strip s = s" by (rule digits_strip)
    with that show ?thesis using trimmed by simp
  qed
  have nine: "verdict s = Inr (False, lit ''unknown'')"
    if "isascii s" "length s = 9" "\<not> list_all ascii_digit s"
  proof -
    from that(1) have "no_other_digits s" unfolding isascii_def by (rule ascii_no_other_digits)
    then have "\<not> list_all isdigit_char s" using that(3) by (rule no_other_digits_nondigit)
    with that(2) show ?thesis by (rule nine_chars_nondigit)
  qed
  show ?thesis
    using nondigit trimmed digits nine
    by (simp add: validate_mmsi_None validate_mmsi_empty)
qed

theorem precondition_order_witness:
  "validate_mmsi (Some (lit ''  '')) = Inr (result False ''unknown'' (lit ''MMSI kosong''))
   \<and> validate_mmsi (Some (lit '' 12a '')) =
       Inr (result False ''unknown'' (lit ''Mengandung karakter non-digit:  12a ''))
   \<and> validate_mmsi (Some (lit '' 2010 '')) =
       Inr (result False ''unknown'' (lit ''Panjang bukan 9 digit: 2010''))
   \<and> validate_mmsi (Some (lit ''1234567890'')) =
       Inr (result False ''unknown'' (lit ''Panjang bukan 9 digit: 1234567890''))
   \<and> verdict (lit '' 20100000'') = Inr (False, lit ''unknown'')
   \<and> verdict (lit ''20100000x'') = Inr (False, lit ''unknown'')"
proof -
  have a: "strip (lit ''  '') = []" by (simp add: class_defs)
  have b: "isascii (lit '' 12a '')" "strip (lit '' 12a '') = lit ''12a''"
    "lit ''12a'' \<noteq> []" "\<not> list_all ascii_digit (lit ''12a'')"
    by (simp_all add: class_defs isascii_def ascii_digit_def)
  have c: "strip (lit '' 2010 '') = lit ''2010''" "lit ''2010'' \<noteq> []"
    "list_all ascii_digit (lit ''2010'')" "length (lit ''2010'') \<noteq> 9"
    by (simp_all add: class_defs ascii_digit_def)
  have d: "lit ''1234567890'' \<noteq> []" "list_all ascii_digit (lit ''1234567890'')"
    "length (lit ''1234567890'') \<noteq> 9"
    by (simp_all add: class_defs ascii_digit_def)
  have e: "isascii (lit '' 20100000'')" "length (lit '' 20100000'') = 9"
    "\<not> list_all ascii_digit (lit '' 20100000'')"
    by (simp_all add: class_defs isascii_def ascii_digit_def)
  have f: "isascii (lit ''20100000x'')" "length (lit ''20100000x'') = 9"
    "\<not> list_all ascii_digit (lit ''20100000x'')"
    by (simp_all add: class_defs isascii_def ascii_digit_def)
  from a have 1: "validate_mmsi (Some (lit ''  '')) = Inr (result False ''unknown'' (lit ''MMSI kosong''))"
    using precondition_order [of "lit ''  ''"] by simp
  from b have 2: "validate_mmsi (Some (lit '' 12a '')) =
       Inr (result False ''unknown'' (lit ''Mengandung karakter non-digit: '' @ lit '' 12a ''))"
    using precondition_order [of "lit '' 12a ''"] by simp
  from c have 3: "validate_mmsi (Some (lit '' 2010 '')) =
       Inr (result False ''unknown'' (lit ''Panjang bukan 9 digit: '' @ lit ''2010''))"
    using precondition_order [of "lit '' 2010 ''"] by simp
  from d have 4: "validate_mmsi (Some (lit ''1234567890'')) =
       Inr (result False ''unknown'' (lit ''Panjang bukan 9 digit: '' @ lit ''1234567890''))"
    using precondition_order [of "lit ''1234567890''"] by simp
  from e have 5: "verdict (lit '' 20100000'') = Inr (False, lit ''unknown'')"
    using precondition_order [of "lit '' 20100000''"] by simp
  from f have 6: "verdict (lit ''20100000x'') = Inr (False, lit ''unknown'')"
    using precondition_order [of "lit ''20100000x''"] by simp
  from 1 2 3 4 5 6 show ?thesis by (simp add: lit_def)
qed

theorem nondigit_outcome_counterexample:
  "\<not> list_all ascii_digit (lit '' 201000000'')
   \<and> validate_mmsi (Some (lit '' 201000000'')) = Inr (result True ''ship_station'' (lit ''MID 201''))"
  by (simp add: eval_defs ascii_digit_def)

subsection \<open>Category dispatch on nine digits\<close>

text \<open>
  C3: a string of exactly 9 decimal digits whose first digit is one of 2 to 7 is
  classified \<^verbatim>\<open>ship_station\<close>, and it is valid exactly when the integer value of
  \<^verbatim>\<open>digits[0:3]\<close> lies in [201, 775].
\<close>

theorem ship_station_rule:
  assumes "mmsi_digits s" and "hd s \<in> set (lit ''234567'')"
  shows "verdict s = Inr (201 \<le> mid_digits s 0 \<and> mid_digits s 0 \<le> 775, lit ''ship_station'')"
proof -
  from assms(2) have "hd s \<in> VALID_FIRST_DIGITS"
    by (simp add: VALID_FIRST_DIGITS_def lit_def)
  then show ?thesis
    by (simp add: verdict_def validate_mmsi_def digits9_facts [OF assms(1)] list.case_eq_if
        with_mid_Some result_def)
qed

theorem ship_station_rule_witness:
  "mmsi_digits (lit ''201000000'') \<and> hd (lit ''201000000'') \<in> set (lit ''234567'')
   \<and> verdict (lit ''201000000'') = Inr (True, lit ''ship_station'')
   \<and> mmsi_digits (lit ''776000000'') \<and> hd (lit ''776000000'') \<in> set (lit ''234567'')
   \<and> verdict (lit ''776000000'') = Inr (False, lit ''ship_station'')"
proof -
  have a1: "mmsi_digits (lit ''201000000'')" and b1: "mmsi_digits (lit ''776000000'')"
    by (simp_all add: mmsi_digits_def lit_def ord_def ascii_digit_def)
  have a2: "hd (lit ''201000000'') \<in> set (lit ''234567'')"
    and b2: "hd (lit ''776000000'') \<in> set (lit ''234567'')"
    by (simp_all add: lit_def ord_def)
  show ?thesis
    using a1 a2 b1 b2 ship_station_rule [OF a1 a2] ship_station_rule [OF b1 b2]
    by (simp add: mid_digits_def digit_val_def lit_def ord_def)
qed

text \<open>
  C4: a string of exactly 9 decimal digits that begins with 970, 972 or 974 is valid, with
  category \<^verbatim>\<open>ais_sart\<close>, \<^verbatim>\<open>mob_msld\<close> or \<^verbatim>\<open>epirb_ais\<close>, whatever the six digits
  that follow. The three tests come before the 98/99 rule and before the
  \<^verbatim>\<open>free_form\<close> result, which such a string therefore never gets.
\<close>

theorem fixed_prefix_rule:
  assumes "mmsi_digits s"
  shows "(startswith s (lit ''970'') \<longrightarrow> verdict s = Inr (True, lit ''ais_sart''))
       \<and> (startswith s (lit ''972'') \<longrightarrow> verdict s = Inr (True, lit ''mob_msld''))
       \<and> (startswith s (lit ''974'') \<longrightarrow> verdict s = Inr (True, lit ''epirb_ais''))"
proof -
  have nine: "hd s = ord CHR ''9''" if "startswith s (lit (CHR ''9'' # cs))" for cs
    using that by (simp add: lit_Cons startswith_hd)
  have v: "ord CHR ''9'' \<notin> VALID_FIRST_DIGITS" "ord CHR ''9'' \<noteq> ord CHR ''8''"
    by (simp_all add: VALID_FIRST_DIGITS_def ord_def)
  have d: "\<not> startswith s (lit ''970'')" if "startswith s (lit ''972'') \<or> startswith s (lit ''974'')"
    using that by (auto simp: startswith_def lit_def ord_def)
  have e: "\<not> startswith s (lit ''972'')" if "startswith s (lit ''974'')"
    using that by (auto simp: startswith_def lit_def ord_def)
  show ?thesis
    using d e
    by (auto simp: verdict_def validate_mmsi_def digits9_facts [OF assms] list.case_eq_if
        result_def nine v)
qed

theorem fixed_prefix_rule_witness:
  "mmsi_digits (lit ''970123456'') \<and> startswith (lit ''970123456'') (lit ''970'')
   \<and> verdict (lit ''970123456'') = Inr (True, lit ''ais_sart'')
   \<and> mmsi_digits (lit ''972000000'') \<and> startswith (lit ''972000000'') (lit ''972'')
   \<and> verdict (lit ''972000000'') = Inr (True, lit ''mob_msld'')
   \<and> mmsi_digits (lit ''974999999'') \<and> startswith (lit ''974999999'') (lit ''974'')
   \<and> verdict (lit ''974999999'') = Inr (True, lit ''epirb_ais'')"
proof -
  have a: "mmsi_digits (lit ''970123456'')" and b: "mmsi_digits (lit ''972000000'')"
    and c: "mmsi_digits (lit ''974999999'')"
    by (simp_all add: mmsi_digits_def lit_def ord_def ascii_digit_def)
  have p: "startswith (lit ''970123456'') (lit ''970'')"
    "startswith (lit ''972000000'') (lit ''972'')" "startswith (lit ''974999999'') (lit ''974'')"
    by (simp_all add: startswith_def lit_def)
  show ?thesis
    using a b c p fixed_prefix_rule [OF a] fixed_prefix_rule [OF b] fixed_prefix_rule [OF c]
    by simp
qed

text \<open>
  C5: a string of exactly 9 decimal digits whose first digit is 9 and that does not begin
  with 970, 972 or 974 is classified \<^verbatim>\<open>auxiliary_craft\<close> when it begins with 98 or 99,
  valid exactly when the integer value of \<^verbatim>\<open>digits[2:5]\<close> lies in [201, 775]; otherwise
  it is \<^verbatim>\<open>free_form\<close> and invalid.
\<close>

theorem nine_prefix_rule:
  assumes "mmsi_digits s" and "hd s = ord CHR ''9''"
    and "\<not> startswith s (lit ''970'')" and "\<not> startswith s (lit ''972'')"
    and "\<not> startswith s (lit ''974'')"
  shows "(startswith s (lit ''98'') \<or> startswith s (lit ''99'') \<longrightarrow>
           verdict s = Inr (201 \<le> mid_digits s 2 \<and> mid_digits s 2 \<le> 775, lit ''auxiliary_craft''))
       \<and> (\<not> startswith s (lit ''98'') \<and> \<not> startswith s (lit ''99'') \<longrightarrow>
           verdict s = Inr (False, lit ''free_form''))"
proof -
  have v: "ord CHR ''9'' \<notin> VALID_FIRST_DIGITS" "ord CHR ''9'' \<noteq> ord CHR ''8''"
    by (simp_all add: VALID_FIRST_DIGITS_def ord_def)
  show ?thesis
    by (auto simp: verdict_def validate_mmsi_def digits9_facts [OF assms(1)] list.case_eq_if
        with_mid_Some result_def assms v)
qed

theorem nine_prefix_rule_witness:
  "verdict (lit ''992011234'') = Inr (True, lit ''auxiliary_craft'')
   \<and> verdict (lit ''990001234'') = Inr (False, lit ''auxiliary_craft'')
   \<and> verdict (lit ''981234567'') = Inr (False, lit ''auxiliary_craft'')
   \<and> verdict (lit ''961234567'') = Inr (False, lit ''free_form'')
   \<and> verdict (lit ''977123456'') = Inr (False, lit ''free_form'')"
proof -
  have d: "mmsi_digits (lit ''992011234'')" "mmsi_digits (lit ''990001234'')"
    "mmsi_digits (lit ''981234567'')" "mmsi_digits (lit ''961234567'')"
    "mmsi_digits (lit ''977123456'')"
    by (simp_all add: mmsi_digits_def lit_def ord_def ascii_digit_def)
  have h: "hd (lit ''992011234'') = ord CHR ''9''" "hd (lit ''990001234'') = ord CHR ''9''"
    "hd (lit ''981234567'') = ord CHR ''9''" "hd (lit ''961234567'') = ord CHR ''9''"
    "hd (lit ''977123456'') = ord CHR ''9''"
    by (simp_all add: lit_def)
  have n: "\<not> startswith (lit ''992011234'') (lit ''970'')"
    "\<not> startswith (lit ''992011234'') (lit ''972'')" "\<not> startswith (lit ''992011234'') (lit ''974'')"
    "\<not> startswith (lit ''990001234'') (lit ''970'')"
    "\<not> startswith (lit ''990001234'') (lit ''972'')" "\<not> startswith (lit ''990001234'') (lit ''974'')"
    "\<not> startswith (lit ''981234567'') (lit ''970'')"
    "\<not> startswith (lit ''981234567'') (lit ''972'')" "\<not> startswith (lit ''981234567'') (lit ''974'')"
    "\<not> startswith (lit ''961234567'') (lit ''970'')"
    "\<not> startswith (lit ''961234567'') (lit ''972'')" "\<not> startswith (lit ''961234567'') (lit ''974'')"
    "\<not> startswith (lit ''977123456'') (lit ''970'')"
    "\<not> startswith (lit ''977123456'') (lit ''972'')" "\<not> startswith (lit ''977123456'') (lit ''974'')"
    by (simp_all add: startswith_def lit_def ord_def)
  show ?thesis
    using nine_prefix_rule [OF d(1) h(1) n(1,2,3)] nine_prefix_rule [OF d(2) h(2) n(4,5,6)]
      nine_prefix_rule [OF d(3) h(3) n(7,8,9)] nine_prefix_rule [OF d(4) h(4) n(10,11,12)]
      nine_prefix_rule [OF d(5) h(5) n(13,14,15)]
    by (simp add: startswith_def mid_digits_def digit_val_def lit_def ord_def)
qed

text \<open>
  C6: a string of exactly 9 decimal digits whose first digit is 0 is classified
  \<^verbatim>\<open>coast_station\<close> when it begins with 00, valid exactly when the integer value of
  \<^verbatim>\<open>digits[2:5]\<close> lies in [201, 775]; otherwise it is \<^verbatim>\<open>group_call\<close>, valid
  exactly when the integer value of \<^verbatim>\<open>digits[1:4]\<close> lies in [201, 775].
\<close>

theorem zero_prefix_rule:
  assumes "mmsi_digits s" and "hd s = ord CHR ''0''"
  shows "(startswith s (lit ''00'') \<longrightarrow>
           verdict s = Inr (201 \<le> mid_digits s 2 \<and> mid_digits s 2 \<le> 775, lit ''coast_station''))
       \<and> (\<not> startswith s (lit ''00'') \<longrightarrow>
           verdict s = Inr (201 \<le> mid_digits s 1 \<and> mid_digits s 1 \<le> 775, lit ''group_call''))"
proof -
  have v: "ord CHR ''0'' \<notin> VALID_FIRST_DIGITS" "ord CHR ''0'' \<noteq> ord CHR ''8''"
    "ord CHR ''0'' \<noteq> ord CHR ''9''"
    by (simp_all add: VALID_FIRST_DIGITS_def ord_def)
  show ?thesis
    by (auto simp: verdict_def validate_mmsi_def digits9_facts [OF assms(1)] list.case_eq_if
        with_mid_Some result_def assms v)
qed

theorem zero_prefix_rule_witness:
  "verdict (lit ''002015678'') = Inr (True, lit ''coast_station'')
   \<and> verdict (lit ''007765678'') = Inr (False, lit ''coast_station'')
   \<and> verdict (lit ''077512345'') = Inr (True, lit ''group_call'')
   \<and> verdict (lit ''012345678'') = Inr (False, lit ''group_call'')"
proof -
  have d: "mmsi_digits (lit ''002015678'')" "mmsi_digits (lit ''007765678'')"
    "mmsi_digits (lit ''077512345'')" "mmsi_digits (lit ''012345678'')"
    by (simp_all add: mmsi_digits_def lit_def ord_def ascii_digit_def)
  have h: "hd (lit ''002015678'') = ord CHR ''0''" "hd (lit ''007765678'') = ord CHR ''0''"
    "hd (lit ''077512345'') = ord CHR ''0''" "hd (lit ''012345678'') = ord CHR ''0''"
    by (simp_all add: lit_def)
  show ?thesis
    using zero_prefix_rule [OF d(1) h(1)] zero_prefix_rule [OF d(2) h(2)]
      zero_prefix_rule [OF d(3) h(3)] zero_prefix_rule [OF d(4) h(4)]
    by (simp add: startswith_def mid_digits_def digit_val_def lit_def ord_def)
qed

text \<open>
  C7: a string of exactly 9 decimal digits whose first digit is 8 is classified
  \<^verbatim>\<open>handheld_vhf_dsc\<close>, and it is valid exactly when the integer value of
  \<^verbatim>\<open>digits[1:4]\<close> lies in [201, 775].
\<close>

theorem handheld_rule:
  assumes "mmsi_digits s" and "hd s = ord CHR ''8''"
  shows "verdict s = Inr (201 \<le> mid_digits s 1 \<and> mid_digits s 1 \<le> 775, lit ''handheld_vhf_dsc'')"
proof -
  from assms(2) have "hd s \<notin> VALID_FIRST_DIGITS"
    by (simp add: VALID_FIRST_DIGITS_def ord_def)
  then show ?thesis
    by (simp add: verdict_def validate_mmsi_def digits9_facts [OF assms(1)] list.case_eq_if
        with_mid_Some result_def assms(2))
qed

theorem handheld_rule_witness:
  "mmsi_digits (lit ''852512345'') \<and> hd (lit ''852512345'') = ord CHR ''8''
   \<and> verdict (lit ''852512345'') = Inr (True, lit ''handheld_vhf_dsc'')
   \<and> mmsi_digits (lit ''820012345'') \<and> hd (lit ''820012345'') = ord CHR ''8''
   \<and> verdict (lit ''820012345'') = Inr (False, lit ''handheld_vhf_dsc'')"
proof -
  have a1: "mmsi_digits (lit ''852512345'')" and b1: "mmsi_digits (lit ''820012345'')"
    by (simp_all add: mmsi_digits_def lit_def ord_def ascii_digit_def)
  have a2: "hd (lit ''852512345'') = ord CHR ''8''" and b2: "hd (lit ''820012345'') = ord CHR ''8''"
    by (simp_all add: lit_def)
  show ?thesis
    using a1 a2 b1 b2 handheld_rule [OF a1 a2] handheld_rule [OF b1 b2]
    by (simp add: mid_digits_def digit_val_def lit_def ord_def)
qed

subsection \<open>The MID helper\<close>

text \<open>
  C8: \<^verbatim>\<open>_extract_mid\<close> yields the integer value of the three characters at the offset
  when they lie within the string and are all digits, and the absent value otherwise;
  the range check holds exactly of a present MID between 201 and 775. The absent value and
  the range check are as claimed (\<open>extract_mid_absent\<close>, \<open>mid_in_range_iff\<close>), and so is
  the integer value when the three characters are decimal digits (\<open>extract_mid_decimal\<close>,
  \<open>extract_mid_digits\<close>). But a slice that lies within the string and passes
  \<^verbatim>\<open>isdigit\<close> need not be readable by \<^verbatim>\<open>int\<close>: on a 1, a superscript two and a 3 the
  helper yields neither an integer nor the absent value, it raises \<^verbatim>\<open>ValueError\<close>.
\<close>

theorem extract_mid_raises:
  "isdigit (slice [0x31, 0xB2, 0x33] 0 3) \<and> extract_mid [0x31, 0xB2, 0x33] 0 = Inl ValueError"
  by (simp add: eval_defs)

subsection \<open>Invariants of a result\<close>

text \<open>
  C9: the category of every result that \<^verbatim>\<open>validate_mmsi\<close> returns is one of the ten
  tags, also for malformed input, and an invalid result carries a note that is not empty.
\<close>

theorem result_invariant:
  assumes "validate_mmsi x = Inr r"
  shows "category r \<in> CATEGORY_TAGS \<and> (\<not> is_valid r \<longrightarrow> note r \<noteq> [])"
proof (cases x)
  case None
  with assms show ?thesis
    using plain_result_invariant [OF tags(10), of "lit ''MMSI kosong''" False]
    by (auto simp: validate_mmsi_def lit_append_nonempty [of _ _ "[]", simplified])
next
  case (Some original)
  with assms show ?thesis
    unfolding validate_mmsi_def Let_def
    by (auto simp: tags lit_append_nonempty [of _ _ "[]", simplified] lit_append_nonempty
        plain_result_invariant
        split: if_splits list.splits
        dest!: with_mid_invariant [OF _ tags(1)] with_mid_invariant [OF _ tags(2)]
          with_mid_invariant [OF _ tags(6)] with_mid_invariant [OF _ tags(8)]
          with_mid_invariant [OF _ tags(9)])
qed

theorem result_invariant_witness:
  "validate_mmsi (Some (lit ''102015678'')) = Inr (result False ''unknown'' (lit ''Prefix 1 tidak dikenal''))
   \<and> category (result False ''unknown'' (lit ''Prefix 1 tidak dikenal'')) \<in> CATEGORY_TAGS
   \<and> note (result False ''unknown'' (lit ''Prefix 1 tidak dikenal'')) \<noteq> []"
proof -
  have h: "validate_mmsi (Some (lit ''102015678'')) = Inr (result False ''unknown'' (lit ''Prefix 1 tidak dikenal''))"
    by (simp add: eval_defs)
  show ?thesis using h result_invariant [OF h] by (simp add: result_def lit_def)
qed

subsection \<open>Trimming and the result\<close>

text \<open>
  C10, as amended: \<^verbatim>\<open>validate_mmsi(s)\<close> and \<^verbatim>\<open>validate_mmsi(s.strip())\<close> agree on
  \<open>valid\<close> and \<open>category\<close> (and raise together), so a 9-digit string padded with
  blanks is classified as its trimmed form. They return the same result, note included,
  unless the trimmed string is not empty and contains a non-digit: then each note quotes
  the argument of its own call, the untrimmed one for \<^verbatim>\<open>s\<close>. The claim as worded,
  the same result for every string, fails on such an input, as the counterexample after the
  witness shows.
\<close>

theorem strip_invariance:
  "verdict s = verdict (strip s)
   \<and> (strip s = [] \<or> list_all isdigit_char (strip s) \<longrightarrow>
        validate_mmsi (Some s) = validate_mmsi (Some (strip s)))
   \<and> (strip s \<noteq> [] \<and> \<not> list_all isdigit_char (strip s) \<longrightarrow>
        validate_mmsi (Some s) =
          Inr (result False ''unknown'' (lit ''Mengandung karakter non-digit: '' @ s))
        \<and> validate_mmsi (Some (strip s)) =
          Inr (result False ''unknown'' (lit ''Mengandung karakter non-digit: '' @ strip s)))"
proof (cases "strip s = []")
  case True
  moreover have "strip (strip s) = []" unfolding strip_strip by (rule True)
  ultimately have "validate_mmsi (Some s) = validate_mmsi (Some (strip s))"
    by (simp only: validate_mmsi_empty)
  with True show ?thesis by (simp add: verdict_def)
next
  case ne: False
  show ?thesis
  proof (cases "list_all isdigit_char (strip s)")
    case True
    with ne have "validate_mmsi (Some s) = validate_mmsi (Some (strip s))"
      by (rule validate_mmsi_strip_digits)
    with ne True show ?thesis by (simp add: verdict_def)
  next
    case False
    from ne False have 1: "validate_mmsi (Some s) =
        Inr (result False ''unknown'' (lit ''Mengandung karakter non-digit: '' @ s))"
      by (rule validate_mmsi_nondigit)
    from ne False have 2: "validate_mmsi (Some (strip s)) =
        Inr (result False ''unknown'' (lit ''Mengandung karakter non-digit: '' @ strip s))"
      by (intro validate_mmsi_nondigit) (simp_all add: strip_strip)
    from ne False 1 2 show ?thesis by (simp add: verdict_def result_def)
  qed
qed

theorem strip_invariance_witness:
  "verdict (lit '' 201000000 '') = verdict (lit ''201000000'')
   \<and> validate_mmsi (Some (lit '' 201000000 '')) = validate_mmsi (Some (lit ''201000000''))
   \<and> validate_mmsi (Some (lit ''  '')) = validate_mmsi (Some [])
   \<and> validate_mmsi (Some (lit '' 12a'')) =
       Inr (result False ''unknown'' (lit ''Mengandung karakter non-digit:  12a''))
   \<and> validate_mmsi (Some (lit ''12a'')) =
       Inr (result False ''unknown'' (lit ''Mengandung karakter non-digit: 12a''))"
proof -
  have a: "strip (lit '' 201000000 '') = lit ''201000000''"
    "list_all isdigit_char (lit ''201000000'')"
    by (simp_all add: class_defs)
  have b: "strip (lit ''  '') = []" by (simp add: class_defs)
  have c: "strip (lit '' 12a'') = lit ''12a''" "lit ''12a'' \<noteq> []"
    "\<not> list_all isdigit_char (lit ''12a'')"
    by (simp_all add: class_defs)
  from a have 1: "verdict (lit '' 201000000 '') = verdict (lit ''201000000'')
     \<and> validate_mmsi (Some (lit '' 201000000 '')) = validate_mmsi (Some (lit ''201000000''))"
    using strip_invariance [of "lit '' 201000000 ''"] by simp
  from b have 2: "validate_mmsi (Some (lit ''  '')) = validate_mmsi (Some [])"
    using strip_invariance [of "lit ''  ''"] by simp
  from c have 3: "validate_mmsi (Some (lit '' 12a'')) =
       Inr (result False ''unknown'' (lit ''Mengandung karakter non-digit: '' @ lit '' 12a''))
     \<and> validate_mmsi (Some (lit ''12a'')) =
       Inr (result False ''unknown'' (lit ''Mengandung karakter non-digit: '' @ lit ''12a''))"
    using strip_invariance [of "lit '' 12a''"] by simp
  from 1 2 3 show ?thesis by (simp add: lit_def)
qed

theorem same_result_counterexample:
  "validate_mmsi (Some (lit '' 12a'')) \<noteq> validate_mmsi (Some (strip (lit '' 12a'')))"
  by (simp add: eval_defs)

end
